theory Spec2Isabelle
  imports Complex_Main
begin

section \<open>Python strings\<close>

text \<open>
  A Python \<open>str\<close> is modelled as a \<open>string\<close>: a list of characters, each character
  a code point below 256. \<open>len\<close> is \<open>length\<close>. The whitespace of \<open>str.strip()\<close>,
  \<open>str.split()\<close> and \<open>str.isspace()\<close> in that range is: tab, line feed, vertical
  tab, form feed, carriage return, the separators 28 to 31, the space, NEL (133) and
  the no-break space (160).
\<close>

definition is_space :: "char \<Rightarrow> bool" where
  "is_space c = ((of_char c :: nat) \<in> {9, 10, 11, 12, 13, 28, 29, 30, 31, 32, 133, 160})"

text \<open>\<open>s.strip()\<close>: the whitespace at both ends removed.\<close>

definition py_strip :: "string \<Rightarrow> string" where
  "py_strip s = rev (dropWhile is_space (rev (dropWhile is_space s)))"

text \<open>
  \<open>s.split()\<close>: the maximal runs of characters that are not whitespace, in order; never
  an empty word. \<open>cur\<close> is the word being read.
\<close>

fun split_ws :: "string \<Rightarrow> string \<Rightarrow> string list" where
  "split_ws cur [] = (if cur = [] then [] else [cur])"
| "split_ws cur (c # cs) =
     (if is_space c then (if cur = [] then split_ws [] cs else cur # split_ws [] cs)
      else split_ws (cur @ [c]) cs)"

definition py_split :: "string \<Rightarrow> string list" where
  "py_split s = split_ws [] s"

text \<open>\<open>sep.join(xs)\<close>.\<close>

fun py_join :: "string \<Rightarrow> string list \<Rightarrow> string" where
  "py_join sep [] = []"
| "py_join sep [x] = x"
| "py_join sep (x # y # ys) = x @ sep @ py_join sep (y # ys)"

section \<open>The chunker: \<open>DocumentTranslator._split_text_into_chunks\<close>\<close>

text \<open>
  The loop \<open>for word in words\<close> of \<open>_split_text_into_chunks\<close>, with its three
  variables \<open>chunks\<close>, \<open>current_chunk\<close> and \<open>current_length\<close>, and the flush after
  the loop. \<open>chunk_size\<close> is a Python \<open>int\<close>: any integer.
\<close>

fun chunk_words :: "int \<Rightarrow> string list \<Rightarrow> string list \<Rightarrow> int \<Rightarrow> string list \<Rightarrow> string list" where
  "chunk_words chunk_size chunks current_chunk current_length [] =
     (if current_chunk \<noteq> [] then chunks @ [py_join '' '' current_chunk] else chunks)"
| "chunk_words chunk_size chunks current_chunk current_length (word # words) =
     (let word_length = int (length word) + 1 in
      if current_length + word_length > chunk_size \<and> current_chunk \<noteq> []
      then chunk_words chunk_size (chunks @ [py_join '' '' current_chunk]) [word] word_length words
      else chunk_words chunk_size chunks (current_chunk @ [word]) (current_length + word_length) words)"

definition split_text_into_chunks :: "string \<Rightarrow> int \<Rightarrow> string list" where
  "split_text_into_chunks text chunk_size =
     (if int (length text) \<le> chunk_size then [text]
      else chunk_words chunk_size [] [] 0 (py_split text))"

text \<open>The length of the longest whitespace-delimited word of a text (0 when it has none).\<close>

definition max_word_length :: "string \<Rightarrow> nat" where
  "max_word_length t = foldr max (map length (py_split t)) 0"

text \<open>
  The reading of "\<open>t\<close> is reconstructed modulo exactly the whitespace at chunk
  boundaries": \<open>t\<close> is the chunks, in order, each one verbatim, with nothing but
  whitespace (possibly none) before, between and after them.
\<close>

fun boundary_ws_only :: "string list \<Rightarrow> string \<Rightarrow> bool" where
  "boundary_ws_only [] t = list_all is_space t"
| "boundary_ws_only (c # cs) [] = (c = [] \<and> boundary_ws_only cs [])"
| "boundary_ws_only (c # cs) (x # t) =
     ((take (length c) (x # t) = c \<and> boundary_ws_only cs (drop (length c) (x # t)))
      \<or> (is_space x \<and> boundary_ws_only (c # cs) t))"

text \<open>A word as \<open>str.split()\<close> returns it: not empty, no whitespace in it.\<close>

definition proper_word :: "string \<Rightarrow> bool" where
  "proper_word w = (w \<noteq> [] \<and> list_all (\<lambda>c. \<not> is_space c) w)"

section \<open>Exceptions and the outside world\<close>

text \<open>
  A raised Python exception is a value: its class, as far as a handler of the program
  tells classes apart, and its message \<open>str(e)\<close>. A call that may raise returns
  \<open>exn + 'a\<close>, \<open>Inl\<close> the exception.
\<close>

datatype exn_class = LangDetectException | UnicodeDecodeError | ValueError | OtherException

datatype exn = Raised exn_class string

fun exn_class_of :: "exn \<Rightarrow> exn_class" where
  "exn_class_of (Raised k m) = k"

fun str_of :: "exn \<Rightarrow> string" where
  "str_of (Raised k m) = m"

text \<open>
  Truthiness of an optional string, as in \<open>if x:\<close> and \<open>x if x else y\<close>: \<open>None\<close> and
  the empty string are falsy.
\<close>

fun truthy :: "string option \<Rightarrow> bool" where
  "truthy None = False"
| "truthy (Some s) = (s \<noteq> [])"

text \<open>
  The three patterns \<open>_clean_text_for_detection\<close> hands to \<open>re.sub\<close>, in the order of
  the source: the URL pattern (\<open>http[s]?://...\<close>), the e-mail pattern and \<open>\s+\<close>.
\<close>

datatype pattern = UrlPattern | EmailPattern | WhitespacePattern

datatype translator_class = GoogleTranslator | MicrosoftTranslator | LibreTranslator | MyMemoryTranslator

text \<open>
  The libraries and services the translator calls are not part of the program: they
  are parameters. An external call reads and changes the world \<open>'w\<close> (the network,
  the service's state, the clock), so it takes the world and returns the new one with
  its result. \<open>'t\<close> is a translator object of \<open>deep_translator\<close>.
  \<^item> \<open>lang_detect\<close>: \<open>langdetect.detect(text)\<close>;
  \<^item> \<open>lang_detect_langs\<close>: \<open>langdetect.detect_langs(text)\<close>, the pairs \<open>(lang, prob)\<close>;
  \<^item> \<open>round2\<close>: \<open>round(x, 2)\<close>;
  \<^item> \<open>regex_sub\<close>: \<open>re.sub(pattern, repl, text)\<close>, a pure function;
  \<^item> \<open>translator_new\<close>: the constructor \<open>Cls(source=..., target=...)\<close>;
  \<^item> \<open>translator_translate\<close>: \<open>translator.translate(chunk)\<close>, \<open>None\<close> for Python's
    \<open>None\<close>;
  \<^item> \<open>sleep\<close>: \<open>time.sleep(0.1)\<close>.
  Logging is left out: no result depends on it.
\<close>

record ('w, 't) services =
  lang_detect :: "string \<Rightarrow> 'w \<Rightarrow> (exn + string) \<times> 'w"
  lang_detect_langs :: "string \<Rightarrow> 'w \<Rightarrow> (exn + (string \<times> real) list) \<times> 'w"
  round2 :: "real \<Rightarrow> real"
  regex_sub :: "pattern \<Rightarrow> string \<Rightarrow> string \<Rightarrow> string"
  translator_new :: "translator_class \<Rightarrow> string \<Rightarrow> string \<Rightarrow> 'w \<Rightarrow> (exn + 't) \<times> 'w"
  translator_translate :: "'t \<Rightarrow> string \<Rightarrow> 'w \<Rightarrow> (exn + string option) \<times> 'w"
  sleep :: "'w \<Rightarrow> 'w"

section \<open>The language detector: \<open>DocumentTranslator.detect_language\<close>\<close>

record detection_result =
  d_language :: string
  d_confidence :: real
  d_language_name :: string
  d_error :: "string option"

definition supported_languages :: "string \<rightharpoonup> string" where
  "supported_languages =
     [''en'' \<mapsto> ''English'', ''hi'' \<mapsto> ''Hindi'', ''mr'' \<mapsto> ''Marathi'', ''sa'' \<mapsto> ''Sanskrit'']"

definition language_names :: "string \<rightharpoonup> string" where
  "language_names =
     [''en'' \<mapsto> ''English'', ''hi'' \<mapsto> ''Hindi'', ''mr'' \<mapsto> ''Marathi'', ''sa'' \<mapsto> ''Sanskrit'',
      ''fr'' \<mapsto> ''French'', ''es'' \<mapsto> ''Spanish'', ''de'' \<mapsto> ''German'', ''it'' \<mapsto> ''Italian'',
      ''pt'' \<mapsto> ''Portuguese'', ''ru'' \<mapsto> ''Russian'', ''ja'' \<mapsto> ''Japanese'', ''ko'' \<mapsto> ''Korean'',
      ''zh'' \<mapsto> ''Chinese'', ''ar'' \<mapsto> ''Arabic'', ''th'' \<mapsto> ''Thai'', ''vi'' \<mapsto> ''Vietnamese'']"

definition get_language_name :: "string \<Rightarrow> string" where
  "get_language_name lang_code =
     (case language_names lang_code of
        Some n \<Rightarrow> n
      | None \<Rightarrow> ''Language ('' @ lang_code @ '')'')"

definition clean_text_for_detection :: "('w, 't) services \<Rightarrow> string \<Rightarrow> string" where
  "clean_text_for_detection sv text =
     (let clean_text = regex_sub sv UrlPattern [] text;
          clean_text = regex_sub sv EmailPattern [] clean_text;
          clean_text = regex_sub sv WhitespacePattern '' '' clean_text
      in py_strip clean_text)"

text \<open>
  \<open>_calculate_confidence\<close>: the first entry of \<open>detect_langs\<close> for the detected
  language, rounded; 0.5 when there is none and when anything raises.
\<close>

definition calculate_confidence ::
  "('w, 't) services \<Rightarrow> string \<Rightarrow> string \<Rightarrow> 'w \<Rightarrow> real \<times> 'w" where
  "calculate_confidence sv text detected_lang w =
     (case lang_detect_langs sv text w of
        (Inl e, w1) \<Rightarrow> (0.5, w1)
      | (Inr probs, w1) \<Rightarrow>
          (case find (\<lambda>prob. fst prob = detected_lang) probs of
             Some prob \<Rightarrow> (round2 sv (snd prob), w1)
           | None \<Rightarrow> (0.5, w1)))"

text \<open>The two handlers of \<open>detect_language\<close>, by the class of the exception.\<close>

definition detection_failed :: "exn \<Rightarrow> detection_result" where
  "detection_failed e =
     \<lparr>d_language = ''unknown'', d_confidence = 0, d_language_name = ''Unknown'',
      d_error = Some ((if exn_class_of e = LangDetectException then ''Detection failed: ''
                       else ''Unexpected error: '') @ str_of e)\<rparr>"

definition detect_language :: "('w, 't) services \<Rightarrow> string \<Rightarrow> 'w \<Rightarrow> detection_result \<times> 'w" where
  "detect_language sv text w =
     (let clean_text = clean_text_for_detection sv text in
      if length (py_strip clean_text) < 10
      then (\<lparr>d_language = ''unknown'', d_confidence = 0, d_language_name = ''Unknown'',
             d_error = Some ''Text too short for reliable detection''\<rparr>, w)
      else
        (case lang_detect sv clean_text w of
           (Inl e, w1) \<Rightarrow> (detection_failed e, w1)
         | (Inr detected_lang, w1) \<Rightarrow>
             (case calculate_confidence sv clean_text detected_lang w1 of
                (confidence, w2) \<Rightarrow>
                  (\<lparr>d_language = detected_lang, d_confidence = confidence,
                    d_language_name =
                      (case supported_languages detected_lang of
                         Some n \<Rightarrow> n
                       | None \<Rightarrow> get_language_name detected_lang),
                    d_error = None\<rparr>, w2))))"

section \<open>The translator: \<open>DocumentTranslator.translate_text\<close>\<close>

definition language_mappings :: "string \<rightharpoonup> (string \<rightharpoonup> string)" where
  "language_mappings =
     [''sa'' \<mapsto> [''google'' \<mapsto> ''sa'', ''microsoft'' \<mapsto> ''sa'', ''libre'' \<mapsto> ''en'',
                ''mymemory'' \<mapsto> ''sa'']]"

definition get_backend_language_code :: "string \<Rightarrow> string \<Rightarrow> string" where
  "get_backend_language_code lang_code backend =
     (case language_mappings lang_code of
        Some m \<Rightarrow> (case m backend of Some c \<Rightarrow> c | None \<Rightarrow> lang_code)
      | None \<Rightarrow> lang_code)"

text \<open>
  The body of the \<open>try\<close> of \<open>_translate_chunk\<close>: the language codes, the translator of
  the backend (a \<open>ValueError\<close> for any other name), the call, and the chunk itself in
  place of a falsy translation.
\<close>

definition translate_with ::
  "('w, 't) services \<Rightarrow> translator_class \<Rightarrow> string \<Rightarrow> string \<Rightarrow> string \<Rightarrow> 'w \<Rightarrow> (exn + string) \<times> 'w" where
  "translate_with sv cls backend_source backend_target chunk w =
     (case translator_new sv cls backend_source backend_target w of
        (Inl e, w1) \<Rightarrow> (Inl e, w1)
      | (Inr translator, w1) \<Rightarrow>
          (case translator_translate sv translator chunk w1 of
             (Inl e, w2) \<Rightarrow> (Inl e, w2)
           | (Inr translated, w2) \<Rightarrow>
               (Inr (if truthy translated then the translated else chunk), w2)))"

definition translate_chunk_body ::
  "('w, 't) services \<Rightarrow> string \<Rightarrow> string \<Rightarrow> string \<Rightarrow> string \<Rightarrow> 'w \<Rightarrow> (exn + string) \<times> 'w" where
  "translate_chunk_body sv chunk target_lang source_lang backend w =
     (let backend_target = get_backend_language_code target_lang backend;
          backend_source = (if source_lang \<noteq> ''auto''
                            then get_backend_language_code source_lang backend else source_lang)
      in if backend = ''google''
           then translate_with sv GoogleTranslator backend_source backend_target chunk w
         else if backend = ''microsoft''
           then translate_with sv MicrosoftTranslator backend_source backend_target chunk w
         else if backend = ''libre''
           then translate_with sv LibreTranslator backend_source backend_target chunk w
         else if backend = ''mymemory''
           then translate_with sv MyMemoryTranslator backend_source backend_target chunk w
         else (Inl (Raised ValueError (''Unsupported backend: '' @ backend)), w))"

text \<open>
  \<open>_translate_chunk\<close>: the body under \<open>except Exception\<close>, whose handler returns the
  original chunk. The result type keeps the exception case, so that "it never raises"
  is a theorem about the function and the handler of its caller is a branch of the
  caller's model.
\<close>

definition translate_chunk ::
  "('w, 't) services \<Rightarrow> string \<Rightarrow> string \<Rightarrow> string \<Rightarrow> string \<Rightarrow> 'w \<Rightarrow> (exn + string) \<times> 'w" where
  "translate_chunk sv chunk target_lang source_lang backend w =
     (case translate_chunk_body sv chunk target_lang source_lang backend w of
        (Inl e, w1) \<Rightarrow> (Inr chunk, w1)
      | (Inr translated, w1) \<Rightarrow> (Inr translated, w1))"

text \<open>
  The inner loop of \<open>translate_text\<close>, \<open>for i, chunk in enumerate(chunks)\<close>: every chunk
  through \<open>_translate_chunk\<close>, with a sleep after each chunk but the last. An exception
  ends the loop.
\<close>

fun translate_chunks ::
  "('w, 't) services \<Rightarrow> string list \<Rightarrow> string \<Rightarrow> string \<Rightarrow> string \<Rightarrow> 'w \<Rightarrow> (exn + string list) \<times> 'w" where
  "translate_chunks sv [] target_lang source_lang attempt_backend w = (Inr [], w)"
| "translate_chunks sv (chunk # rest) target_lang source_lang attempt_backend w =
     (case translate_chunk sv chunk target_lang source_lang attempt_backend w of
        (Inl e, w1) \<Rightarrow> (Inl e, w1)
      | (Inr translated_chunk, w1) \<Rightarrow>
          (case translate_chunks sv rest target_lang source_lang attempt_backend
                  (if rest \<noteq> [] then sleep sv w1 else w1) of
             (Inl e, w2) \<Rightarrow> (Inl e, w2)
           | (Inr translated_chunks, w2) \<Rightarrow> (Inr (translated_chunk # translated_chunks), w2)))"

text \<open>
  The outer loop, \<open>for attempt_backend in [backend, 'google', 'libre', 'mymemory']\<close>:
  the first candidate whose inner loop ends without an exception, with its chunks;
  \<open>None\<close> when \<open>backend_success\<close> stays false.
\<close>

fun try_backends ::
  "('w, 't) services \<Rightarrow> string list \<Rightarrow> string list \<Rightarrow> string \<Rightarrow> string \<Rightarrow> 'w
     \<Rightarrow> (string \<times> string list) option \<times> 'w" where
  "try_backends sv [] chunks target_lang source_lang w = (None, w)"
| "try_backends sv (attempt_backend # candidates) chunks target_lang source_lang w =
     (case translate_chunks sv chunks target_lang source_lang attempt_backend w of
        (Inr translated_chunks, w1) \<Rightarrow> (Some (attempt_backend, translated_chunks), w1)
      | (Inl e, w1) \<Rightarrow> try_backends sv candidates chunks target_lang source_lang w1)"

record translation_result =
  t_translated_text :: string
  t_source_language :: string
  t_target_language :: string
  t_backend_used :: "string option"
  t_chunks_processed :: int
  t_error :: "string option"
  t_note :: "string option"

text \<open>
  The source language after \<open>if source_lang == 'auto'\<close>: the detected language, or
  \<open>'en'\<close> when the detection result carries an error.
\<close>

definition resolve_source :: "('w, 't) services \<Rightarrow> string \<Rightarrow> string \<Rightarrow> 'w \<Rightarrow> string \<times> 'w" where
  "resolve_source sv text source_lang w =
     (if source_lang = ''auto''
      then (case detect_language sv text w of
              (detection_result, w1) \<Rightarrow>
                (if truthy (d_error detection_result) then ''en''
                 else d_language detection_result, w1))
      else (source_lang, w))"

text \<open>
  \<open>translate_text\<close>. Every step of its body returns on the values of the model (strings,
  an integer chunk size), so the outer \<open>except Exception\<close> of the source has nothing to
  catch and is no branch here.
\<close>

definition translate_text ::
  "('w, 't) services \<Rightarrow> string \<Rightarrow> string \<Rightarrow> string \<Rightarrow> string \<Rightarrow> int \<Rightarrow> 'w \<Rightarrow> translation_result \<times> 'w" where
  "translate_text sv text target_lang source_lang backend chunk_size w =
     (if py_strip text = []
      then (\<lparr>t_translated_text = [], t_source_language = source_lang, t_target_language = target_lang,
             t_backend_used = Some backend, t_chunks_processed = 0,
             t_error = Some ''Empty text provided'', t_note = None\<rparr>, w)
      else
        (case resolve_source sv text source_lang w of
           (source_lang, w1) \<Rightarrow>
             if source_lang = target_lang
             then (\<lparr>t_translated_text = text, t_source_language = source_lang,
                    t_target_language = target_lang, t_backend_used = Some backend,
                    t_chunks_processed = 1, t_error = None,
                    t_note = Some ''No translation needed - same language''\<rparr>, w1)
             else
               (let chunks = split_text_into_chunks text chunk_size in
                case try_backends sv [backend, ''google'', ''libre'', ''mymemory''] chunks
                       target_lang source_lang w1 of
                  (None, w2) \<Rightarrow>
                    (\<lparr>t_translated_text = [], t_source_language = source_lang,
                      t_target_language = target_lang, t_backend_used = None,
                      t_chunks_processed = 0,
                      t_error = Some ''All translation backends failed'', t_note = None\<rparr>, w2)
                | (Some (backend_used, translated_chunks), w2) \<Rightarrow>
                    (\<lparr>t_translated_text = py_join '' '' translated_chunks,
                      t_source_language = source_lang, t_target_language = target_lang,
                      t_backend_used = Some backend_used,
                      t_chunks_processed = int (length chunks),
                      t_error = None, t_note = None\<rparr>, w2))))"

section \<open>The text extractor: \<open>DocumentProcessor.extract_text\<close>\<close>

text \<open>
  \<open>bytes\<close> is a list of 8-bit characters. The input of the extractor is a path, a
  \<open>bytes\<close> object or a \<open>BytesIO\<close>.
\<close>

type_synonym bytes = "char list"

datatype file_input = PathInput string | BytesInput bytes | BytesIOInput bytes

definition LF :: char where
  "LF = CHR 0x0A"

definition TAB :: char where
  "TAB = CHR 0x09"

text \<open>\<open>s.lower()\<close> on the code points below 256: A to Z, and the capital letters 192 to 222
  but the multiplication sign 215, move up by 32.\<close>

definition lower_char :: "char \<Rightarrow> char" where
  "lower_char c =
     (let n = (of_char c :: nat) in
      if (65 \<le> n \<and> n \<le> 90) \<or> (192 \<le> n \<and> n \<le> 222 \<and> n \<noteq> 215) then char_of (n + 32) else c)"

definition py_lower :: "string \<Rightarrow> string" where
  "py_lower s = map lower_char s"

text \<open>
  \<open>s.splitlines()\<close>: the line boundaries below 256 are line feed, carriage return (with a
  line feed after it as one boundary), vertical tab, form feed, the separators 28 to 30
  and NEL.
\<close>

definition is_linebreak :: "char \<Rightarrow> bool" where
  "is_linebreak c = ((of_char c :: nat) \<in> {10, 11, 12, 13, 28, 29, 30, 133})"

fun splitlines_from :: "string \<Rightarrow> string \<Rightarrow> string list" where
  "splitlines_from cur [] = (if cur = [] then [] else [cur])"
| "splitlines_from cur [c] = (if is_linebreak c then [cur] else [cur @ [c]])"
| "splitlines_from cur (c # d # cs) =
     (if (of_char c :: nat) = 13 \<and> (of_char d :: nat) = 10 then cur # splitlines_from [] cs
      else if is_linebreak c then cur # splitlines_from [] (d # cs)
      else splitlines_from (cur @ [c]) (d # cs))"

definition py_splitlines :: "string \<Rightarrow> string list" where
  "py_splitlines s = splitlines_from [] s"

text \<open>A document as \<open>python-docx\<close> gives it: the paragraphs' texts, and for every table
  its rows of cell texts.\<close>

record docx_document =
  paragraphs :: "string list"
  tables :: "string list list list"

text \<open>
  The document libraries, as parameters over a world \<open>'w\<close> (the file system, the
  position of a \<open>BytesIO\<close>):
  \<^item> \<open>fitz_pages\<close>: PyMuPDF, \<open>fitz.open\<close> and \<open>get_text()\<close> of every page, in order;
  \<^item> \<open>pypdf_pages\<close>: \<open>PdfReader\<close> and \<open>extract_text()\<close> of every page;
  \<^item> \<open>docx_document\<close>: \<open>Document(...)\<close> of python-docx;
  \<^item> \<open>docx2python_text\<close>: \<open>docx2python(...).text\<close>, through a temporary file for bytes;
  \<^item> \<open>read_text\<close>: the text of the input in an encoding, \<open>open(...).read()\<close> for a path
    and \<open>decode\<close> for bytes.
  Each of them returns its value or the exception it raised.
\<close>

record 'w doc_libs =
  fitz_pages :: "file_input \<Rightarrow> 'w \<Rightarrow> (exn + string list) \<times> 'w"
  pypdf_pages :: "file_input \<Rightarrow> 'w \<Rightarrow> (exn + string list) \<times> 'w"
  docx_open :: "file_input \<Rightarrow> 'w \<Rightarrow> (exn + docx_document) \<times> 'w"
  docx2python_text :: "file_input \<Rightarrow> 'w \<Rightarrow> (exn + string) \<times> 'w"
  read_text :: "string \<Rightarrow> file_input \<Rightarrow> 'w \<Rightarrow> (exn + string) \<times> 'w"

text \<open>The result dictionary: a key that a branch does not set is \<open>None\<close>; \<open>e_error\<close> is
  the value of the key \<open>error\<close>, \<open>None\<close> for Python's \<open>None\<close>.\<close>

record extraction_result =
  e_text :: string
  e_pages :: "int option"
  e_paragraphs :: "int option"
  e_tables :: "int option"
  e_lines :: "int option"
  e_method :: "string option"
  e_error :: "string option"

definition pages_text :: "string list \<Rightarrow> string" where
  "pages_text page_texts = concat (map (\<lambda>page. page @ [LF, LF]) page_texts)"

definition extract_pdf_text :: "'w doc_libs \<Rightarrow> file_input \<Rightarrow> 'w \<Rightarrow> extraction_result \<times> 'w" where
  "extract_pdf_text libs file_input w =
     (case fitz_pages libs file_input w of
        (Inr page_texts, w1) \<Rightarrow>
          (\<lparr>e_text = py_strip (pages_text page_texts), e_pages = Some (int (length page_texts)),
            e_paragraphs = None, e_tables = None, e_lines = None,
            e_method = Some ''PyMuPDF'', e_error = None\<rparr>, w1)
      | (Inl e, w1) \<Rightarrow>
          (case pypdf_pages libs file_input w1 of
             (Inr page_texts, w2) \<Rightarrow>
               (\<lparr>e_text = py_strip (pages_text page_texts),
                 e_pages = Some (int (length page_texts)),
                 e_paragraphs = None, e_tables = None, e_lines = None,
                 e_method = Some ''pypdf'', e_error = None\<rparr>, w2)
           | (Inl e2, w2) \<Rightarrow>
               (\<lparr>e_text = [], e_pages = Some 0,
                 e_paragraphs = None, e_tables = None, e_lines = None,
                 e_method = Some ''none'',
                 e_error = Some (''PDF extraction failed: '' @ str_of e2)\<rparr>, w2)))"

definition docx_full_text :: "docx_document \<Rightarrow> string" where
  "docx_full_text doc =
     concat (map (\<lambda>paragraph. paragraph @ [LF]) (paragraphs doc))
     @ concat (map (\<lambda>table. concat (map (\<lambda>row. concat (map (\<lambda>cell. cell @ [TAB]) row) @ [LF]) table))
         (tables doc))"

definition extract_docx_text :: "'w doc_libs \<Rightarrow> file_input \<Rightarrow> 'w \<Rightarrow> extraction_result \<times> 'w" where
  "extract_docx_text libs file_input w =
     (case docx_open libs file_input w of
        (Inr doc, w1) \<Rightarrow>
          (\<lparr>e_text = py_strip (docx_full_text doc), e_pages = None,
            e_paragraphs = Some (int (length (paragraphs doc))),
            e_tables = Some (int (length (tables doc))), e_lines = None,
            e_method = Some ''python-docx'', e_error = None\<rparr>, w1)
      | (Inl e, w1) \<Rightarrow>
          (case docx2python_text libs file_input w1 of
             (Inr result_text, w2) \<Rightarrow>
               (\<lparr>e_text = result_text, e_pages = None,
                 e_paragraphs = None, e_tables = None, e_lines = None,
                 e_method = Some ''docx2python'', e_error = None\<rparr>, w2)
           | (Inl e2, w2) \<Rightarrow>
               (\<lparr>e_text = [], e_pages = None,
                 e_paragraphs = None, e_tables = None, e_lines = None,
                 e_method = Some ''none'',
                 e_error = Some (''DOCX extraction failed: '' @ str_of e2)\<rparr>, w2)))"

text \<open>The loop over the fallback encodings in the \<open>UnicodeDecodeError\<close> handler of
  \<open>_extract_txt_text\<close>; its bare \<open>except\<close> goes on to the next encoding.\<close>

fun try_encodings :: "'w doc_libs \<Rightarrow> string list \<Rightarrow> file_input \<Rightarrow> 'w \<Rightarrow> extraction_result \<times> 'w" where
  "try_encodings libs [] file_input w =
     (\<lparr>e_text = [], e_pages = None, e_paragraphs = None, e_tables = None, e_lines = None,
       e_method = Some ''none'',
       e_error = Some ''Could not decode text file with any encoding''\<rparr>, w)"
| "try_encodings libs (encoding # encodings) file_input w =
     (case read_text libs encoding file_input w of
        (Inr text, w1) \<Rightarrow>
          (\<lparr>e_text = text, e_pages = None, e_paragraphs = None, e_tables = None,
            e_lines = Some (int (length (py_splitlines text))),
            e_method = Some (''direct-'' @ encoding), e_error = None\<rparr>, w1)
      | (Inl e, w1) \<Rightarrow> try_encodings libs encodings file_input w1)"

definition extract_txt_text :: "'w doc_libs \<Rightarrow> file_input \<Rightarrow> 'w \<Rightarrow> extraction_result \<times> 'w" where
  "extract_txt_text libs file_input w =
     (case read_text libs ''utf-8'' file_input w of
        (Inr text, w1) \<Rightarrow>
          (\<lparr>e_text = text, e_pages = None, e_paragraphs = None, e_tables = None,
            e_lines = Some (int (length (py_splitlines text))),
            e_method = Some ''direct'', e_error = None\<rparr>, w1)
      | (Inl e, w1) \<Rightarrow>
          if exn_class_of e = UnicodeDecodeError
          then try_encodings libs [''utf-8'', ''latin-1'', ''cp1252'', ''iso-8859-1''] file_input w1
          else (\<lparr>e_text = [], e_pages = None, e_paragraphs = None, e_tables = None,
                 e_lines = None, e_method = Some ''none'',
                 e_error = Some (''TXT extraction failed: '' @ str_of e)\<rparr>, w1))"

text \<open>The body of the \<open>try\<close> of \<open>extract_text\<close>: the three extractors return, the last
  branch raises.\<close>

definition extract_text_body ::
  "'w doc_libs \<Rightarrow> file_input \<Rightarrow> string \<Rightarrow> 'w \<Rightarrow> (exn + extraction_result) \<times> 'w" where
  "extract_text_body libs file_input file_extension w =
     (let file_extension = py_lower file_extension in
      if file_extension = ''.pdf''
        then (case extract_pdf_text libs file_input w of (r, w1) \<Rightarrow> (Inr r, w1))
      else if file_extension = ''.docx''
        then (case extract_docx_text libs file_input w of (r, w1) \<Rightarrow> (Inr r, w1))
      else if file_extension = ''.txt''
        then (case extract_txt_text libs file_input w of (r, w1) \<Rightarrow> (Inr r, w1))
      else (Inl (Raised ValueError (''Unsupported file format: '' @ file_extension)), w))"

definition extract_text ::
  "'w doc_libs \<Rightarrow> file_input \<Rightarrow> string \<Rightarrow> 'w \<Rightarrow> extraction_result \<times> 'w" where
  "extract_text libs file_input file_extension w =
     (case extract_text_body libs file_input file_extension w of
        (Inr r, w1) \<Rightarrow> (r, w1)
      | (Inl e, w1) \<Rightarrow>
          (\<lparr>e_text = [], e_pages = Some 0, e_paragraphs = None, e_tables = None,
            e_lines = None, e_method = None, e_error = Some (str_of e)\<rparr>, w1))"

section \<open>The PDF renderer: \<open>DocumentUtils.create_translated_pdf\<close>\<close>

text \<open>
  The text that \<open>create_translated_pdf\<close> draws is a translation, into Hindi, Marathi or
  Sanskrit in this program, so its characters lie far beyond code point 255. The
  strings of this section are therefore lists of code points; \<open>ustr\<close> turns a literal
  into one. The whitespace of \<open>str.strip()\<close> over all code points is: 9 to 13, 28 to 32,
  133, 160, 5760, 8192 to 8202, 8232, 8233, 8239, 8287 and 12288.
\<close>

type_synonym ustring = "nat list"

definition ustr :: "string \<Rightarrow> ustring" where
  "ustr s = map of_char s"

definition is_uspace :: "nat \<Rightarrow> bool" where
  "is_uspace n =
     ((9 \<le> n \<and> n \<le> 13) \<or> (28 \<le> n \<and> n \<le> 32) \<or> n = 133 \<or> n = 160 \<or> n = 5760
      \<or> (8192 \<le> n \<and> n \<le> 8202) \<or> n = 8232 \<or> n = 8233 \<or> n = 8239 \<or> n = 8287
      \<or> n = 12288)"

definition ustrip :: "ustring \<Rightarrow> ustring" where
  "ustrip s = rev (dropWhile is_uspace (rev (dropWhile is_uspace s)))"

text \<open>\<open>s.split(sep)\<close> for a separator of one character: always at least one piece.\<close>

fun split_on_from :: "nat \<Rightarrow> ustring \<Rightarrow> ustring \<Rightarrow> ustring list" where
  "split_on_from sep cur [] = [cur]"
| "split_on_from sep cur (c # cs) =
     (if c = sep then cur # split_on_from sep [] cs else split_on_from sep (cur @ [c]) cs)"

definition py_split_on :: "nat \<Rightarrow> ustring \<Rightarrow> ustring list" where
  "py_split_on sep s = split_on_from sep [] s"

text \<open>An exception raised while a PDF is rendered, with its message \<open>str(e)\<close>.\<close>

datatype pdf_exn = PdfRaised ustring

fun message_of :: "pdf_exn \<Rightarrow> ustring" where
  "message_of (PdfRaised m) = m"

text \<open>
  The PDF library is a parameter. \<open>'p\<close> is the state of an \<open>FPDF\<close> object; every method
  returns the new state or the exception it raised. \<open>fpdf_cell w h txt align\<close> is
  \<open>cell(w, h, txt, ln=True, align=align)\<close>, the empty string for the default alignment;
  \<open>fpdf_output\<close> is \<open>bytes(pdf.output(dest='S'))\<close>.
\<close>

record 'p fpdf_lib =
  fpdf_new :: "pdf_exn + 'p"
  fpdf_add_page :: "'p \<Rightarrow> pdf_exn + 'p"
  fpdf_set_font :: "string \<Rightarrow> string \<Rightarrow> int \<Rightarrow> 'p \<Rightarrow> pdf_exn + 'p"
  fpdf_cell :: "int \<Rightarrow> int \<Rightarrow> ustring \<Rightarrow> string \<Rightarrow> 'p \<Rightarrow> pdf_exn + 'p"
  fpdf_ln :: "int \<Rightarrow> 'p \<Rightarrow> pdf_exn + 'p"
  fpdf_output :: "'p \<Rightarrow> pdf_exn + bytes"

text \<open>One statement after another, until one raises.\<close>

fun bind_exn :: "pdf_exn + 'a \<Rightarrow> ('a \<Rightarrow> pdf_exn + 'b) \<Rightarrow> pdf_exn + 'b" where
  "bind_exn (Inl e) f = Inl e"
| "bind_exn (Inr x) f = f x"

fun run_steps :: "('p \<Rightarrow> pdf_exn + 'p) list \<Rightarrow> 'p \<Rightarrow> pdf_exn + 'p" where
  "run_steps [] pdf = Inr pdf"
| "run_steps (step # steps) pdf = bind_exn (step pdf) (run_steps steps)"

text \<open>The loop \<open>for word in words\<close> over a line of more than 80 characters, and the
  flush of \<open>current_line\<close> after it.\<close>

fun wrap_words :: "'p fpdf_lib \<Rightarrow> ustring \<Rightarrow> ustring list \<Rightarrow> 'p \<Rightarrow> pdf_exn + 'p" where
  "wrap_words lib current_line [] pdf =
     (if current_line \<noteq> [] then fpdf_cell lib 0 6 (ustrip current_line) [] pdf else Inr pdf)"
| "wrap_words lib current_line (word # words) pdf =
     (if length (current_line @ word @ ustr '' '') > 80
      then bind_exn
             (if current_line \<noteq> [] then fpdf_cell lib 0 6 (ustrip current_line) [] pdf
              else Inr pdf)
             (wrap_words lib (word @ ustr '' '') words)
      else wrap_words lib (current_line @ word @ ustr '' '') words pdf)"

text \<open>The loop \<open>for line in lines\<close>; 32 is the space.\<close>

fun render_lines :: "'p fpdf_lib \<Rightarrow> ustring list \<Rightarrow> 'p \<Rightarrow> pdf_exn + 'p" where
  "render_lines lib [] pdf = Inr pdf"
| "render_lines lib (line # lines) pdf =
     bind_exn
       (if ustrip line \<noteq> []
        then (if length line > 80 then wrap_words lib [] (py_split_on 32 line) pdf
              else fpdf_cell lib 0 6 line [] pdf)
        else fpdf_ln lib 3 pdf)
       (render_lines lib lines)"

text \<open>The body of the \<open>try\<close>; \<open>now\<close> is the timestamp
  \<open>datetime.now().strftime("%Y-%m-%d %H:%M:%S")\<close>, and 10 is the line feed.\<close>

definition render_translated_pdf ::
  "'p fpdf_lib \<Rightarrow> ustring \<Rightarrow> ustring \<Rightarrow> ustring \<Rightarrow> ustring \<Rightarrow> ustring \<Rightarrow> pdf_exn + bytes" where
  "render_translated_pdf lib now original_filename translated_text source_lang target_lang =
     bind_exn (fpdf_new lib) (\<lambda>pdf.
       bind_exn
         (run_steps
            [fpdf_add_page lib,
             fpdf_set_font lib ''Arial'' ''B'' 16,
             fpdf_cell lib 0 10 (ustr ''Translation: '' @ original_filename) ''C'',
             fpdf_ln lib 5,
             fpdf_set_font lib ''Arial'' ''I'' 10,
             fpdf_cell lib 0 5
               (ustr ''Translated from '' @ source_lang @ ustr '' to '' @ target_lang) [],
             fpdf_cell lib 0 5 (ustr ''Generated on: '' @ now) [],
             fpdf_ln lib 10,
             fpdf_set_font lib ''Arial'' [] 12,
             render_lines lib (py_split_on 10 translated_text)] pdf)
         (fpdf_output lib))"

text \<open>The handler: the error PDF, outside any \<open>try\<close>.\<close>

definition render_error_pdf :: "'p fpdf_lib \<Rightarrow> pdf_exn \<Rightarrow> pdf_exn + bytes" where
  "render_error_pdf lib e =
     bind_exn (fpdf_new lib) (\<lambda>error_pdf.
       bind_exn
         (run_steps
            [fpdf_add_page lib,
             fpdf_set_font lib ''Arial'' ''B'' 16,
             fpdf_cell lib 0 10 (ustr ''Translation Error'') ''C'',
             fpdf_set_font lib ''Arial'' [] 12,
             fpdf_cell lib 0 10 (ustr ''Error creating translated PDF: '' @ message_of e) []]
            error_pdf)
         (fpdf_output lib))"

definition create_translated_pdf ::
  "'p fpdf_lib \<Rightarrow> ustring \<Rightarrow> ustring \<Rightarrow> ustring \<Rightarrow> ustring \<Rightarrow> ustring \<Rightarrow> pdf_exn + bytes" where
  "create_translated_pdf lib now original_filename translated_text source_lang target_lang =
     (case render_translated_pdf lib now original_filename translated_text source_lang target_lang of
        Inr pdf_content \<Rightarrow> Inr pdf_content
      | Inl e \<Rightarrow> render_error_pdf lib e)"

section \<open>Test doubles for the services\<close>

text \<open>
  A concrete outside world, for evaluating the program: the world is the list of the
  external calls made so far. The detector answers \<open>en\<close>; a translator whose class is
  in \<open>failing\<close> raises on every \<open>translate\<close>, any other one returns the chunk behind the
  target code and a colon. The regular expressions replace every whitespace run by the
  replacement and leave the text alone for the URL and e-mail patterns, which is what
  \<open>re.sub\<close> does on a text without \<open>http\<close> and without \<open>@\<close>.
\<close>

datatype call =
    CallDetect string
  | CallDetectLangs string
  | CallNew translator_class string string
  | CallTranslate translator_class string
  | CallSleep

fun sub_ws_runs :: "string \<Rightarrow> bool \<Rightarrow> string \<Rightarrow> string" where
  "sub_ws_runs repl in_run [] = []"
| "sub_ws_runs repl in_run (c # cs) =
     (if is_space c then (if in_run then sub_ws_runs repl True cs else repl @ sub_ws_runs repl True cs)
      else c # sub_ws_runs repl False cs)"

definition fake_services ::
  "translator_class list \<Rightarrow> (call list, translator_class \<times> string \<times> string) services" where
  "fake_services failing =
     \<lparr>lang_detect = (\<lambda>text w. (Inr ''en'', w @ [CallDetect text])),
      lang_detect_langs = (\<lambda>text w. (Inr [(''en'', 1)], w @ [CallDetectLangs text])),
      round2 = (\<lambda>x. x),
      regex_sub = (\<lambda>p repl text. if p = WhitespacePattern then sub_ws_runs repl False text else text),
      translator_new = (\<lambda>cls src tgt w. (Inr (cls, src, tgt), w @ [CallNew cls src tgt])),
      translator_translate = (\<lambda>translator chunk w.
         (if fst translator \<in> set failing then Inl (Raised OtherException ''service unavailable'')
          else Inr (Some (snd (snd translator) @ '':'' @ chunk)),
          w @ [CallTranslate (fst translator) chunk])),
      sleep = (\<lambda>w. w @ [CallSleep])\<rparr>"

text \<open>
  Document libraries that return what they are given: the four parsers return their
  argument whatever the input is, a path cannot be read, and bytes decode to themselves
  in \<open>latin-1\<close> and \<open>iso-8859-1\<close> always and in the other encodings when every byte is
  ASCII (a \<open>UnicodeDecodeError\<close> otherwise).
\<close>

definition ascii_decode :: "string \<Rightarrow> bytes \<Rightarrow> exn + string" where
  "ascii_decode encoding bs =
     (if encoding = ''latin-1'' \<or> encoding = ''iso-8859-1''
         \<or> list_all (\<lambda>c. (of_char c :: nat) < 128) bs
      then Inr bs
      else Inl (Raised UnicodeDecodeError ''codec cannot decode the bytes''))"

definition fake_doc_libs ::
  "exn + string list \<Rightarrow> exn + string list \<Rightarrow> exn + docx_document \<Rightarrow> exn + string \<Rightarrow> unit doc_libs" where
  "fake_doc_libs fitz pypdf docx d2p =
     \<lparr>fitz_pages = (\<lambda>file_input w. (fitz, w)),
      pypdf_pages = (\<lambda>file_input w. (pypdf, w)),
      docx_open = (\<lambda>file_input w. (docx, w)),
      docx2python_text = (\<lambda>file_input w. (d2p, w)),
      read_text = (\<lambda>encoding file_input w.
        (case file_input of
           PathInput path \<Rightarrow> Inl (Raised OtherException ''No such file or directory'')
         | BytesInput bs \<Rightarrow> ascii_decode encoding bs
         | BytesIOInput bs \<Rightarrow> ascii_decode encoding bs, w))\<rparr>"

text \<open>
  A PDF library that behaves as \<open>fpdf2\<close> does with its built-in fonts. The state of a
  document is the list of the calls made on it. The built-in fonts are encoded in
  Latin-1: \<open>cell\<close> draws every text of code points below 256 and raises on any other
  one, with a message that quotes the first character outside the font and gives its
  index and the font (\<open>Arial\<close> is the font \<open>helvetica\<close>). The output is a header and the
  texts of the cells in Latin-1, never empty.
\<close>

datatype pdf_op = AddPage | SetFont string string int | Cell int int ustring string | Ln int

fun op_bytes :: "pdf_op \<Rightarrow> bytes" where
  "op_bytes AddPage = ''<page>''"
| "op_bytes (SetFont family style pt) = []"
| "op_bytes (Cell w h txt align) = ''('' @ map char_of txt @ '')''"
| "op_bytes (Ln h) = []"

text \<open>The first character outside Latin-1 from index \<open>i\<close> on, with its index.\<close>

fun first_outside :: "nat \<Rightarrow> ustring \<Rightarrow> (nat \<times> nat) option" where
  "first_outside i [] = None"
| "first_outside i (c # cs) = (if c < 256 then first_outside (Suc i) cs else Some (i, c))"

text \<open>The font of a document: the family and style of the last \<open>set_font\<close>.\<close>

fun font_of :: "string \<Rightarrow> pdf_op list \<Rightarrow> string" where
  "font_of font [] = font"
| "font_of font (SetFont family style pt # ops) =
     font_of ((if py_lower family = ''arial'' then ''helvetica'' else py_lower family) @ style) ops"
| "font_of font (AddPage # ops) = font_of font ops"
| "font_of font (Cell w h txt align # ops) = font_of font ops"
| "font_of font (Ln h # ops) = font_of font ops"

text \<open>A number in decimal; 48 is the digit 0.\<close>

fun decimal :: "nat \<Rightarrow> ustring" where
  "decimal n = (if n < 10 then [48 + n] else decimal (n div 10) @ [48 + n mod 10])"

definition outside_font :: "nat \<Rightarrow> nat \<Rightarrow> string \<Rightarrow> pdf_exn" where
  "outside_font i c font =
     PdfRaised (ustr ''Character '' @ [34, c, 34] @ ustr '' at index '' @ decimal i
       @ ustr '' in text is outside the range of characters supported by the font used: ''
       @ [34] @ ustr font @ [34] @ ustr ''. Please consider using a Unicode font.'')"

definition latin1_fpdf :: "pdf_op list fpdf_lib" where
  "latin1_fpdf =
     \<lparr>fpdf_new = Inr [],
      fpdf_add_page = (\<lambda>pdf. Inr (pdf @ [AddPage])),
      fpdf_set_font = (\<lambda>family style pt pdf. Inr (pdf @ [SetFont family style pt])),
      fpdf_cell = (\<lambda>w h txt align pdf.
        case first_outside 0 txt of
          None \<Rightarrow> Inr (pdf @ [Cell w h txt align])
        | Some (i, c) \<Rightarrow> Inl (outside_font i c (font_of [] pdf))),
      fpdf_ln = (\<lambda>h pdf. Inr (pdf @ [Ln h])),
      fpdf_output = (\<lambda>pdf. Inr (''%PDF-1.3'' @ concat (map op_bytes pdf)))\<rparr>"

text \<open>The translator class \<open>_translate_chunk\<close> constructs for a backend name, if any.\<close>

definition class_of_backend :: "string \<rightharpoonup> translator_class" where
  "class_of_backend =
     [''google'' \<mapsto> GoogleTranslator, ''microsoft'' \<mapsto> MicrosoftTranslator,
      ''libre'' \<mapsto> LibreTranslator, ''mymemory'' \<mapsto> MyMemoryTranslator]"

section \<open>Properties of the string functions\<close>

lemma is_space_blank: "is_space CHR '' ''"
  by (simp add: is_space_def)

lemma split_ws_proper:
  "list_all (\<lambda>c. \<not> is_space c) cur \<Longrightarrow> list_all proper_word (split_ws cur t)"
  by (induction t arbitrary: cur) (auto simp: proper_word_def)

lemma py_split_proper: "list_all proper_word (py_split t)"
  by (simp add: py_split_def split_ws_proper)

lemma split_ws_word:
  "list_all (\<lambda>c. \<not> is_space c) w \<Longrightarrow> split_ws cur (w @ rest) = split_ws (cur @ w) rest"
  by (induction w arbitrary: cur) auto

lemma py_split_join:
  "list_all proper_word ws \<Longrightarrow> py_split (py_join '' '' ws) = ws"
proof (induction "'' ''" ws rule: py_join.induct)
  case 1
  show ?case by (simp add: py_split_def)
next
  case (2 x)
  then have "split_ws [] (x @ []) = split_ws ([] @ x) []"
    unfolding proper_word_def by (intro split_ws_word) simp
  with 2 show ?case by (simp add: py_split_def proper_word_def)
next
  case (3 x y ys)
  let ?rest = "py_join '' '' (y # ys)"
  from 3 have x: "x \<noteq> []" "list_all (\<lambda>c. \<not> is_space c) x"
    by (simp_all add: proper_word_def)
  from 3 have ih: "split_ws [] ?rest = y # ys"
    by (simp add: py_split_def)
  have "split_ws [] (x @ CHR '' '' # ?rest) = split_ws ([] @ x) (CHR '' '' # ?rest)"
    using x(2) by (rule split_ws_word)
  also have "\<dots> = x # split_ws [] ?rest"
    using x(1) by (simp add: is_space_blank)
  finally show ?case using ih by (simp add: py_split_def)
qed

lemma py_join_append:
  "xs \<noteq> [] \<Longrightarrow> ys \<noteq> [] \<Longrightarrow> py_join sep (xs @ ys) = py_join sep xs @ sep @ py_join sep ys"
proof (induction sep xs rule: py_join.induct)
  case (2 sep x)
  then show ?case by (cases ys) simp_all
qed simp_all

lemma py_join_groups:
  "[] \<notin> set groups \<Longrightarrow> py_join sep (map (py_join sep) groups) = py_join sep (concat groups)"
proof (induction groups)
  case Nil
  show ?case by simp
next
  case (Cons g groups)
  show ?case
  proof (cases groups)
    case Nil
    then show ?thesis by simp
  next
    case (Cons h hs)
    with Cons.prems have ne: "g \<noteq> []" "concat groups \<noteq> []" by auto
    have "py_join sep (g @ concat groups) = py_join sep g @ sep @ py_join sep (concat groups)"
      using ne by (rule py_join_append)
    with Cons.IH Cons.prems Cons show ?thesis by simp
  qed
qed

lemma py_split_groups:
  "list_all proper_word (concat groups) \<Longrightarrow>
   concat (map py_split (map (py_join '' '') groups)) = concat groups"
  by (induction groups) (simp_all add: py_split_join)

section \<open>Properties of the chunker\<close>

lemma chunk_words_groups:
  "\<exists>groups. chunk_words n chunks cur cl ws = chunks @ map (py_join '' '') groups
     \<and> concat groups = cur @ ws \<and> [] \<notin> set groups"
proof (induction ws arbitrary: chunks cur cl)
  case Nil
  show ?case
  proof (cases "cur = []")
    case True
    then show ?thesis by (intro exI [of _ "[]"]) simp
  next
    case False
    then show ?thesis by (intro exI [of _ "[cur]"]) simp
  qed
next
  case (Cons w ws)
  show ?case
  proof (cases "cl + (int (length w) + 1) > n \<and> cur \<noteq> []")
    case True
    from Cons [of "chunks @ [py_join '' '' cur]" "[w]" "int (length w) + 1"]
    obtain groups where g:
      "chunk_words n (chunks @ [py_join '' '' cur]) [w] (int (length w) + 1) ws
         = (chunks @ [py_join '' '' cur]) @ map (py_join '' '') groups"
      "concat groups = [w] @ ws" "[] \<notin> set groups"
      by blast
    with True show ?thesis
      by (intro exI [of _ "cur # groups"]) (auto simp: Let_def)
  next
    case False
    from Cons [of chunks "cur @ [w]" "cl + (int (length w) + 1)"]
    obtain groups where g:
      "chunk_words n chunks (cur @ [w]) (cl + (int (length w) + 1)) ws
         = chunks @ map (py_join '' '') groups"
      "concat groups = (cur @ [w]) @ ws" "[] \<notin> set groups"
      by blast
    with False show ?thesis
      by (intro exI [of _ groups]) (auto simp: Let_def)
  qed
qed

lemma length_py_strip_le: "length (py_strip s) \<le> length s"
proof -
  have "length (dropWhile is_space (rev (dropWhile is_space s))) \<le> length (rev (dropWhile is_space s))"
    by (rule length_dropWhile_le)
  also have "\<dots> \<le> length s"
    by (simp add: length_dropWhile_le)
  finally show ?thesis by (simp add: py_strip_def)
qed

lemma last_dropWhile: "dropWhile P xs \<noteq> [] \<Longrightarrow> last (dropWhile P xs) = last xs"
proof -
  assume ne: "dropWhile P xs \<noteq> []"
  have "last xs = last (takeWhile P xs @ dropWhile P xs)" by simp
  also have "\<dots> = last (dropWhile P xs)" using ne by (rule last_appendR)
  finally show ?thesis by simp
qed

lemma py_strip_idem: "py_strip (py_strip s) = py_strip s"
proof -
  define t where "t = dropWhile is_space s"
  define v where "v = dropWhile is_space (rev t)"
  have strip: "py_strip s = rev v" by (simp add: py_strip_def t_def v_def)
  have head: "dropWhile is_space (rev v) = rev v"
  proof (cases "v = []")
    case True
    then show ?thesis by simp
  next
    case False
    then have "last v = last (rev t)" unfolding v_def by (rule last_dropWhile)
    moreover from False have t: "t \<noteq> []" by (auto simp: v_def)
    ultimately have "last v = hd t" by (simp add: last_rev)
    moreover from t have "\<not> is_space (hd t)" unfolding t_def by (rule hd_dropWhile)
    ultimately have "\<not> is_space (hd (rev v))" using False by (simp add: hd_rev)
    then show ?thesis by (simp add: dropWhile_eq_self_iff)
  qed
  have "py_strip (rev v) = rev (dropWhile is_space v)"
    by (simp add: py_strip_def head)
  also have "\<dots> = rev v" by (simp add: v_def)
  finally show ?thesis by (simp add: strip)
qed

section \<open>The chunker keeps the words\<close>

lemma split_text_into_chunks_long:
  assumes "n < int (length t)"
  shows "py_join '' '' (split_text_into_chunks t n) = py_join '' '' (py_split t)"
    and "concat (map py_split (split_text_into_chunks t n)) = py_split t"
proof -
  obtain groups where g:
    "chunk_words n [] [] 0 (py_split t) = [] @ map (py_join '' '') groups"
    "concat groups = [] @ py_split t" "[] \<notin> set groups"
    using chunk_words_groups [of n "[]" "[]" 0 "py_split t"] by blast
  from assms g(1) have chunks: "split_text_into_chunks t n = map (py_join '' '') groups"
    by (simp add: split_text_into_chunks_def)
  show "py_join '' '' (split_text_into_chunks t n) = py_join '' '' (py_split t)"
    using g(2,3) by (simp add: chunks py_join_groups)
  have "list_all proper_word (concat groups)"
    using g(2) py_split_proper [of t] by simp
  then have "concat (map py_split (map (py_join '' '') groups)) = concat groups"
    by (rule py_split_groups)
  then show "concat (map py_split (split_text_into_chunks t n)) = py_split t"
    using g(2) unfolding chunks by simp
qed

text \<open>
  C5 (as amended). For every text \<open>t\<close> and every chunk size \<open>n\<close>, so for every
  \<open>n\<close> of at least one more than the longest word: when \<open>len(t) <= n\<close> the only chunk is
  \<open>t\<close> and the join is \<open>t\<close> itself; otherwise the chunks joined by single spaces are the
  words of \<open>t\<close> joined by single spaces, every whitespace run of \<open>t\<close> replaced by one
  space and the whitespace at both ends dropped, inside a chunk as well as between two
  chunks. In both cases the words of the chunks, chunk after chunk, are the words of
  \<open>t\<close>: no word is split across two chunks.
\<close>

theorem split_text_into_chunks_keeps_words:
  "(int (length t) \<le> n \<longrightarrow> split_text_into_chunks t n = [t])
   \<and> (int (length t) \<le> n \<longrightarrow> py_join '' '' (split_text_into_chunks t n) = t)
   \<and> (n < int (length t) \<longrightarrow>
        py_join '' '' (split_text_into_chunks t n) = py_join '' '' (py_split t))
   \<and> concat (map py_split (split_text_into_chunks t n)) = py_split t"
proof (cases "int (length t) \<le> n")
  case True
  then show ?thesis by (simp add: split_text_into_chunks_def)
next
  case False
  then have "n < int (length t)" by simp
  from split_text_into_chunks_long [OF this] False show ?thesis by simp
qed

theorem split_text_into_chunks_keeps_words_witness:
  "int (1 + max_word_length ''aa  bb cc'') \<le> 6
   \<and> split_text_into_chunks ''aa  bb cc'' 6 = [''aa bb'', ''cc'']
   \<and> py_join '' '' (split_text_into_chunks ''aa  bb cc'' 6) = ''aa bb cc''
   \<and> concat (map py_split (split_text_into_chunks ''aa  bb cc'' 6)) = [''aa'', ''bb'', ''cc'']
   \<and> split_text_into_chunks ''aa  bb cc'' 9 = [''aa  bb cc'']
   \<and> py_join '' '' (split_text_into_chunks ''aa  bb cc'' 9) = ''aa  bb cc''"
proof -
  have w: "py_split ''aa  bb cc'' = [''aa'', ''bb'', ''cc'']" by code_simp
  have m: "int (1 + max_word_length ''aa  bb cc'') \<le> 6" by code_simp
  have c: "split_text_into_chunks ''aa  bb cc'' 6 = [''aa bb'', ''cc'']" by code_simp
  have l: "(6::int) < int (length ''aa  bb cc'')" "int (length ''aa  bb cc'') \<le> 9" by simp_all
  from split_text_into_chunks_keeps_words [of "''aa  bb cc''" 6]
    split_text_into_chunks_keeps_words [of "''aa  bb cc''" 9] w m c l
  show ?thesis by simp
qed

text \<open>
  C5 as stated fails: with \<open>t = "aa  bb cc"\<close> (two spaces after \<open>aa\<close>) and \<open>N = 6\<close>, which
  is more than the longest word plus one, the chunks are \<open>"aa bb"\<close> and \<open>"cc"\<close>. The first
  chunk is no piece of \<open>t\<close>: the double space inside it, away from any chunk boundary,
  has become one space.
\<close>

theorem split_text_into_chunks_boundary_counterexample:
  "\<not> (int (1 + max_word_length ''aa  bb cc'') \<le> 6 \<longrightarrow>
        boundary_ws_only (split_text_into_chunks ''aa  bb cc'' 6) ''aa  bb cc'')"
  by code_simp

section \<open>The language detector stops on a short text\<close>

lemma clean_text_update:
  "clean_text_for_detection (sv\<lparr>lang_detect := d, lang_detect_langs := dl\<rparr>) text
     = clean_text_for_detection sv text"
  by (simp add: clean_text_for_detection_def)

text \<open>
  C8. When the cleaned text has fewer than 10 characters, \<open>detect_language\<close> returns the
  language \<open>unknown\<close>, the confidence 0.0 and the error
  \<open>Text too short for reliable detection\<close>. The detector is not called: the result is
  the same whatever \<open>detect\<close> and \<open>detect_langs\<close> are, and the world is left as it was.
\<close>

theorem detect_language_too_short:
  assumes "length (clean_text_for_detection sv text) < 10"
  shows "detect_language (sv\<lparr>lang_detect := d, lang_detect_langs := dl\<rparr>) text w =
           (\<lparr>d_language = ''unknown'', d_confidence = 0, d_language_name = ''Unknown'',
             d_error = Some ''Text too short for reliable detection''\<rparr>, w)"
proof -
  let ?sv = "sv\<lparr>lang_detect := d, lang_detect_langs := dl\<rparr>"
  have "length (py_strip (clean_text_for_detection ?sv text)) \<le> length (clean_text_for_detection sv text)"
    unfolding clean_text_update by (rule length_py_strip_le)
  with assms have "length (py_strip (clean_text_for_detection ?sv text)) < 10"
    by simp
  then show ?thesis
    by (simp add: detect_language_def Let_def)
qed

theorem detect_language_too_short_witness:
  "length (clean_text_for_detection (fake_services []) ''hi'') < 10
   \<and> length (clean_text_for_detection (fake_services []) []) < 10
   \<and> detect_language ((fake_services [])\<lparr>lang_detect := (\<lambda>text w. (Inr ''fr'', CallDetect text # w)),
          lang_detect_langs := (\<lambda>text w. (Inr [], w))\<rparr>) ''hi'' [] =
        (\<lparr>d_language = ''unknown'', d_confidence = 0, d_language_name = ''Unknown'',
          d_error = Some ''Text too short for reliable detection''\<rparr>, [])
   \<and> detect_language ((fake_services [])\<lparr>lang_detect := (\<lambda>text w. (Inr ''fr'', CallDetect text # w)),
          lang_detect_langs := (\<lambda>text w. (Inr [], w))\<rparr>) [] [] =
        (\<lparr>d_language = ''unknown'', d_confidence = 0, d_language_name = ''Unknown'',
          d_error = Some ''Text too short for reliable detection''\<rparr>, [])"
proof -
  have hi: "length (clean_text_for_detection (fake_services []) ''hi'') < 10"
    by (simp add: clean_text_for_detection_def fake_services_def py_strip_def is_space_def)
  have empty: "length (clean_text_for_detection (fake_services []) []) < 10"
    by (simp add: clean_text_for_detection_def fake_services_def py_strip_def)
  show ?thesis
    using hi empty detect_language_too_short [OF hi] detect_language_too_short [OF empty]
    by simp
qed

section \<open>A chunk translation never raises\<close>

lemma translate_chunk_returns:
  "\<exists>s w1. translate_chunk sv chunk tgt srl b w = (Inr s, w1)"
  by (simp add: translate_chunk_def split: prod.splits sum.splits)

lemma translate_chunks_returns:
  "\<exists>ts w1. translate_chunks sv chunks tgt srl b w = (Inr ts, w1) \<and> length ts = length chunks"
proof (induction chunks arbitrary: w)
  case Nil
  show ?case by simp
next
  case (Cons c cs)
  obtain s w1 where c: "translate_chunk sv c tgt srl b w = (Inr s, w1)"
    using translate_chunk_returns [of sv c tgt srl b w] by auto
  obtain ts w2 where cs:
    "translate_chunks sv cs tgt srl b (if cs \<noteq> [] then sleep sv w1 else w1) = (Inr ts, w2)"
    "length ts = length cs"
    using Cons [of "if cs \<noteq> [] then sleep sv w1 else w1"] by auto
  show ?case using c cs by simp
qed

lemma try_backends_first:
  "\<exists>ts w1. try_backends sv (b # candidates) chunks tgt srl w = (Some (b, ts), w1)
     \<and> translate_chunks sv chunks tgt srl b w = (Inr ts, w1)"
proof -
  obtain ts w1 where "translate_chunks sv chunks tgt srl b w = (Inr ts, w1)"
    using translate_chunks_returns [of sv chunks tgt srl b w] by auto
  then show ?thesis by simp
qed

text \<open>A backend that raises on every chunk hands every chunk back as its translation.\<close>

lemma translate_chunks_raising_backend:
  assumes "\<And>c w. isl (fst (translate_chunk_body sv c tgt srl b w))"
  shows "fst (translate_chunks sv chunks tgt srl b w) = Inr chunks"
proof (induction chunks arbitrary: w)
  case Nil
  show ?case by simp
next
  case (Cons c cs)
  obtain e w1 where "translate_chunk_body sv c tgt srl b w = (Inl e, w1)"
    using assms [of c w] by (cases "translate_chunk_body sv c tgt srl b w") (auto simp: isl_def)
  then have c: "translate_chunk sv c tgt srl b w = (Inr c, w1)"
    by (simp add: translate_chunk_def)
  show ?case
    using Cons [of "sleep sv w1"] Cons [of w1] c by (auto split: prod.splits sum.splits)
qed

text \<open>
  So the first candidate, the preferred backend, always wins: whatever the services do,
  a translation that gets to the loop over the backends ends with the preferred
  backend as \<open>backend_used\<close> and without an error.
\<close>

lemma translate_text_preferred:
  assumes "py_strip text \<noteq> []" and "resolve_source sv text srl w = (src, w1)" and "src \<noteq> tgt"
  shows "\<exists>ts w2. translate_chunks sv (split_text_into_chunks text cs) tgt src backend w1 = (Inr ts, w2)
     \<and> translate_text sv text tgt srl backend cs w =
        (\<lparr>t_translated_text = py_join '' '' ts, t_source_language = src, t_target_language = tgt,
          t_backend_used = Some backend,
          t_chunks_processed = int (length (split_text_into_chunks text cs)),
          t_error = None, t_note = None\<rparr>, w2)"
proof -
  obtain ts w2 where t:
    "try_backends sv [backend, ''google'', ''libre'', ''mymemory''] (split_text_into_chunks text cs) tgt src w1
       = (Some (backend, ts), w2)"
    "translate_chunks sv (split_text_into_chunks text cs) tgt src backend w1 = (Inr ts, w2)"
    using try_backends_first [of sv backend "[''google'', ''libre'', ''mymemory'']"
        "split_text_into_chunks text cs" tgt src w1] by auto
  show ?thesis using assms t
    by (simp add: translate_text_def Let_def del: try_backends.simps)
qed

text \<open>
  C9. \<open>_translate_chunk\<close> returns a string for every chunk, every pair of language codes
  and every backend name, whatever the services do: it never raises. Whenever the body
  of its \<open>try\<close> raises, the result is the original chunk: so for a backend name outside
  \<open>google\<close>, \<open>microsoft\<close>, \<open>libre\<close>, \<open>mymemory\<close> (the \<open>ValueError\<close>), when the constructor
  of the translator raises and when \<open>translate\<close> raises. A falsy translation (\<open>None\<close> or
  the empty string) gives the original chunk too.
\<close>

theorem translate_chunk_total:
  "(\<exists>s w1. translate_chunk sv chunk tgt srl b w = (Inr s, w1))
   \<and> (\<forall>e w1. translate_chunk_body sv chunk tgt srl b w = (Inl e, w1)
         \<longrightarrow> translate_chunk sv chunk tgt srl b w = (Inr chunk, w1))
   \<and> (class_of_backend b = None \<longrightarrow>
        translate_chunk_body sv chunk tgt srl b w
          = (Inl (Raised ValueError (''Unsupported backend: '' @ b)), w)
        \<and> translate_chunk sv chunk tgt srl b w = (Inr chunk, w))
   \<and> (\<forall>cls e w1. class_of_backend b = Some cls
         \<and> translator_new sv cls (if srl \<noteq> ''auto'' then get_backend_language_code srl b else srl)
              (get_backend_language_code tgt b) w = (Inl e, w1)
         \<longrightarrow> translate_chunk sv chunk tgt srl b w = (Inr chunk, w1))
   \<and> (\<forall>cls t w1 e w2. class_of_backend b = Some cls
         \<and> translator_new sv cls (if srl \<noteq> ''auto'' then get_backend_language_code srl b else srl)
              (get_backend_language_code tgt b) w = (Inr t, w1)
         \<and> translator_translate sv t chunk w1 = (Inl e, w2)
         \<longrightarrow> translate_chunk sv chunk tgt srl b w = (Inr chunk, w2))
   \<and> (\<forall>cls t w1 r w2. class_of_backend b = Some cls
         \<and> translator_new sv cls (if srl \<noteq> ''auto'' then get_backend_language_code srl b else srl)
              (get_backend_language_code tgt b) w = (Inr t, w1)
         \<and> translator_translate sv t chunk w1 = (Inr r, w2) \<and> \<not> truthy r
         \<longrightarrow> translate_chunk sv chunk tgt srl b w = (Inr chunk, w2))"
  apply (intro conjI)
  subgoal by (rule translate_chunk_returns)
  subgoal by (simp add: translate_chunk_def)
  subgoal by (simp add: translate_chunk_def translate_chunk_body_def class_of_backend_def Let_def
        split: if_splits)
  subgoal by (auto simp add: translate_chunk_def translate_chunk_body_def translate_with_def
        class_of_backend_def Let_def split: if_splits)
  subgoal by (auto simp add: translate_chunk_def translate_chunk_body_def translate_with_def
        class_of_backend_def Let_def split: if_splits)
  subgoal by (auto simp add: translate_chunk_def translate_chunk_body_def translate_with_def
        class_of_backend_def Let_def split: if_splits)
  done

theorem translate_chunk_total_witness:
  "class_of_backend ''deepl'' = None
   \<and> translate_chunk (fake_services []) ''hello'' ''hi'' ''en'' ''deepl'' [] = (Inr ''hello'', [])
   \<and> class_of_backend ''microsoft'' = Some MicrosoftTranslator
   \<and> translate_chunk (fake_services [MicrosoftTranslator]) ''hello'' ''hi'' ''en'' ''microsoft'' []
       = (Inr ''hello'',
          [CallNew MicrosoftTranslator ''en'' ''hi'', CallTranslate MicrosoftTranslator ''hello''])"
proof -
  let ?sv = "fake_services [MicrosoftTranslator]"
  have deepl: "class_of_backend ''deepl'' = None"
    by (simp add: class_of_backend_def)
  have ms: "class_of_backend ''microsoft'' = Some MicrosoftTranslator"
    by (simp add: class_of_backend_def)
  have new: "translator_new ?sv MicrosoftTranslator
      (if ''en'' \<noteq> ''auto'' then get_backend_language_code ''en'' ''microsoft'' else ''en'')
      (get_backend_language_code ''hi'' ''microsoft'') []
      = (Inr (MicrosoftTranslator, ''en'', ''hi''), [CallNew MicrosoftTranslator ''en'' ''hi''])"
    by (simp add: fake_services_def get_backend_language_code_def language_mappings_def)
  have tr: "translator_translate ?sv (MicrosoftTranslator, ''en'', ''hi'') ''hello''
      [CallNew MicrosoftTranslator ''en'' ''hi'']
      = (Inl (Raised OtherException ''service unavailable''),
         [CallNew MicrosoftTranslator ''en'' ''hi'', CallTranslate MicrosoftTranslator ''hello''])"
    by (simp add: fake_services_def)
  from translate_chunk_total [of "fake_services []" "''hello''" "''hi''" "''en''" "''deepl''" "[]"] deepl
  have 1: "translate_chunk (fake_services []) ''hello'' ''hi'' ''en'' ''deepl'' [] = (Inr ''hello'', [])"
    by blast
  from translate_chunk_total [of ?sv "''hello''" "''hi''" "''en''" "''microsoft''" "[]"] ms new tr
  have 2: "translate_chunk ?sv ''hello'' ''hi'' ''en'' ''microsoft'' []
       = (Inr ''hello'',
          [CallNew MicrosoftTranslator ''en'' ''hi'', CallTranslate MicrosoftTranslator ''hello''])"
    by blast
  from deepl ms 1 2 show ?thesis by simp
qed

section \<open>The loop over the backends\<close>

text \<open>
  C1 (the code at the failing input). The preferred backend \<open>microsoft\<close> raises on every
  chunk and \<open>google\<close> would translate. The translation does not move on to \<open>google\<close>:
  \<open>_translate_chunk\<close> has caught the exception and returned the chunk, so the loop of
  \<open>microsoft\<close> ends normally, \<open>backend_used\<close> is \<open>microsoft\<close>, the translated text is the
  untranslated input, and no call reaches the Google translator.
\<close>

theorem translate_text_keeps_failing_backend:
  "translate_text (fake_services [MicrosoftTranslator]) ''hello big world'' ''hi'' ''en''
       ''microsoft'' 11 []
     = (\<lparr>t_translated_text = ''hello big world'', t_source_language = ''en'',
         t_target_language = ''hi'', t_backend_used = Some ''microsoft'',
         t_chunks_processed = 2, t_error = None, t_note = None\<rparr>,
        [CallNew MicrosoftTranslator ''en'' ''hi'',
         CallTranslate MicrosoftTranslator ''hello big'', CallSleep,
         CallNew MicrosoftTranslator ''en'' ''hi'',
         CallTranslate MicrosoftTranslator ''world''])"
  by code_simp

text \<open>
  C2 (the code at the failing input). Every backend raises on every chunk. The result
  is not the error \<open>All translation backends failed\<close>: the first candidate ends its loop
  normally, and the result carries no error, the backend \<open>google\<close> and the untranslated
  input as the translation.
\<close>

theorem translate_text_all_backends_raise:
  "translate_text
       (fake_services [GoogleTranslator, MicrosoftTranslator, LibreTranslator, MyMemoryTranslator])
       ''hello big world'' ''hi'' ''en'' ''google'' 11 []
     = (\<lparr>t_translated_text = ''hello big world'', t_source_language = ''en'',
         t_target_language = ''hi'', t_backend_used = Some ''google'',
         t_chunks_processed = 2, t_error = None, t_note = None\<rparr>,
        [CallNew GoogleTranslator ''en'' ''hi'',
         CallTranslate GoogleTranslator ''hello big'', CallSleep,
         CallNew GoogleTranslator ''en'' ''hi'',
         CallTranslate GoogleTranslator ''world''])"
  by code_simp

section \<open>The results of \<open>translate_text\<close>\<close>

text \<open>
  C3 (as amended). A result of \<open>translate_text\<close> with an error has an empty translated
  text; its \<open>backend_used\<close> is null, except in the result of the empty-input check, where
  it is the backend the caller asked for.
\<close>

theorem translate_text_error_result:
  "(t_error (fst (translate_text sv text tgt srl backend cs w)) \<noteq> None \<longrightarrow>
     t_translated_text (fst (translate_text sv text tgt srl backend cs w)) = []
     \<and> (t_backend_used (fst (translate_text sv text tgt srl backend cs w)) = None
        \<or> py_strip text = []
          \<and> t_backend_used (fst (translate_text sv text tgt srl backend cs w)) = Some backend))
   \<and> (py_strip text = [] \<longrightarrow>
        t_error (fst (translate_text sv text tgt srl backend cs w)) = Some ''Empty text provided''
        \<and> t_backend_used (fst (translate_text sv text tgt srl backend cs w)) = Some backend)"
  by (simp add: translate_text_def Let_def split: prod.splits option.splits
      del: try_backends.simps)

theorem translate_text_error_result_witness:
  "t_error (fst (translate_text (fake_services []) [] ''en'' ''auto'' ''google'' 5000 []))
     = Some ''Empty text provided''
   \<and> t_translated_text (fst (translate_text (fake_services []) [] ''en'' ''auto'' ''google'' 5000 [])) = []
   \<and> py_strip [] = []
   \<and> t_backend_used (fst (translate_text (fake_services []) [] ''en'' ''auto'' ''google'' 5000 []))
       = Some ''google''"
proof -
  have e: "t_error (fst (translate_text (fake_services []) [] ''en'' ''auto'' ''google'' 5000 []))
     = Some ''Empty text provided''"
    by (simp add: translate_text_def py_strip_def)
  have b: "t_backend_used (fst (translate_text (fake_services []) [] ''en'' ''auto'' ''google'' 5000 []))
     \<noteq> None"
    by (simp add: translate_text_def py_strip_def)
  from translate_text_error_result [of "fake_services []" "[]" "''en''" "''auto''" "''google''" 5000 "[]"] e b
  show ?thesis by (simp add: py_strip_def)
qed

text \<open>
  C3 as stated fails on the empty-input check: the result for the empty text has the
  error \<open>Empty text provided\<close> and the backend \<open>google\<close>, not null.
\<close>

theorem translate_text_error_backend_counterexample:
  "\<not> (t_error (fst (translate_text (fake_services []) [] ''en'' ''auto'' ''google'' 5000 [])) \<noteq> None
        \<longrightarrow> t_translated_text (fst (translate_text (fake_services []) [] ''en'' ''auto'' ''google'' 5000 [])) = []
          \<and> t_backend_used (fst (translate_text (fake_services []) [] ''en'' ''auto'' ''google'' 5000 [])) = None)"
  by (simp add: translate_text_def py_strip_def)

text \<open>
  C4 (as amended). For every text with a character that is not whitespace, when the
  resolved source language is the target language, \<open>translate_text\<close> returns the text
  unchanged, with \<open>chunks_processed = 1\<close> and no error. No backend is called and the
  text is not chunked: the result is the same whatever the translators and the sleep
  are and whatever the chunk size is, and the world is the one the resolution of the
  source language left.
\<close>

theorem translate_text_same_language:
  assumes "py_strip text \<noteq> []" and "resolve_source sv text srl w = (tgt, w1)"
  shows "translate_text (sv\<lparr>translator_new := tn, translator_translate := tt, sleep := sp\<rparr>)
           text tgt srl backend cs w =
        (\<lparr>t_translated_text = text, t_source_language = tgt, t_target_language = tgt,
          t_backend_used = Some backend, t_chunks_processed = 1, t_error = None,
          t_note = Some ''No translation needed - same language''\<rparr>, w1)"
proof -
  let ?sv = "sv\<lparr>translator_new := tn, translator_translate := tt, sleep := sp\<rparr>"
  have "calculate_confidence ?sv = calculate_confidence sv"
    by (intro ext) (simp add: calculate_confidence_def split: prod.splits sum.splits option.splits)
  moreover have "clean_text_for_detection ?sv = clean_text_for_detection sv"
    by (intro ext) (simp add: clean_text_for_detection_def)
  ultimately have "detect_language ?sv text w = detect_language sv text w"
    by (simp add: detect_language_def Let_def split: prod.splits sum.splits)
  then have "resolve_source ?sv text srl w = resolve_source sv text srl w"
    by (simp add: resolve_source_def)
  with assms show ?thesis
    by (simp add: translate_text_def)
qed

theorem translate_text_same_language_witness:
  "py_strip ''hello big world'' \<noteq> []
   \<and> resolve_source (fake_services []) ''hello big world'' ''auto'' []
       = (''en'', [CallDetect ''hello big world'', CallDetectLangs ''hello big world''])
   \<and> translate_text
        ((fake_services [])\<lparr>translator_new := (\<lambda>cls s t w. (Inl (Raised OtherException ''down''), CallSleep # w)),
           translator_translate := (\<lambda>t c w. (Inr (Some ''x''), CallSleep # w)),
           sleep := (\<lambda>w. CallSleep # w)\<rparr>)
        ''hello big world'' ''en'' ''auto'' ''google'' 5 []
       = (\<lparr>t_translated_text = ''hello big world'', t_source_language = ''en'',
           t_target_language = ''en'', t_backend_used = Some ''google'',
           t_chunks_processed = 1, t_error = None,
           t_note = Some ''No translation needed - same language''\<rparr>,
          [CallDetect ''hello big world'', CallDetectLangs ''hello big world''])"
proof -
  have ne: "py_strip ''hello big world'' \<noteq> []" by code_simp
  have rs: "resolve_source (fake_services []) ''hello big world'' ''auto'' []
       = (''en'', [CallDetect ''hello big world'', CallDetectLangs ''hello big world''])"
    by code_simp
  from ne rs translate_text_same_language [OF ne rs] show ?thesis by simp
qed

text \<open>
  C4 as stated fails on a text that is not empty but blank: for one space, with source
  and target both \<open>en\<close>, the result is the error of the empty-input check and an empty
  text, not the input.
\<close>

theorem translate_text_blank_counterexample:
  "\<not> ('' '' \<noteq> [] \<longrightarrow>
        fst (resolve_source (fake_services []) '' '' ''en'' []) = ''en'' \<longrightarrow>
        t_translated_text (fst (translate_text (fake_services []) '' '' ''en'' ''en'' ''google'' 5000 [])) = '' ''
        \<and> t_chunks_processed (fst (translate_text (fake_services []) '' '' ''en'' ''en'' ''google'' 5000 [])) = 1
        \<and> t_error (fst (translate_text (fake_services []) '' '' ''en'' ''en'' ''google'' 5000 [])) = None)"
  by (simp add: translate_text_def resolve_source_def py_strip_def is_space_def)

section \<open>The dispatch of \<open>extract_text\<close>\<close>

lemma py_strip_Nil: "py_strip [] = []"
  by (simp add: py_strip_def)

text \<open>
  C10. \<open>extract_text\<close> sees the extension through \<open>lower()\<close> only: two extensions
  with the same lower-case form give the same result, so \<open>.PDF\<close> and \<open>.Pdf\<close> go where
  \<open>.pdf\<close> goes. An extension whose lower-case form is \<open>.pdf\<close>, \<open>.docx\<close> or \<open>.txt\<close> gets
  the result of its extractor; any other one gets, instead of an exception, the result
  with the empty text, 0 pages and the error \<open>Unsupported file format: \<close> followed by the
  lower-case extension.
\<close>

theorem extract_text_dispatch:
  "(py_lower ext = py_lower ext' \<longrightarrow>
      extract_text libs file_input ext w = extract_text libs file_input ext' w)
   \<and> (py_lower ext = ''.pdf'' \<longrightarrow>
        extract_text libs file_input ext w = extract_pdf_text libs file_input w)
   \<and> (py_lower ext = ''.docx'' \<longrightarrow>
        extract_text libs file_input ext w = extract_docx_text libs file_input w)
   \<and> (py_lower ext = ''.txt'' \<longrightarrow>
        extract_text libs file_input ext w = extract_txt_text libs file_input w)
   \<and> (py_lower ext \<notin> {''.pdf'', ''.docx'', ''.txt''} \<longrightarrow>
        extract_text libs file_input ext w =
          (\<lparr>e_text = [], e_pages = Some 0, e_paragraphs = None, e_tables = None,
            e_lines = None, e_method = None,
            e_error = Some (''Unsupported file format: '' @ py_lower ext)\<rparr>, w))"
  by (simp add: extract_text_def extract_text_body_def Let_def split: prod.splits)

theorem extract_text_dispatch_witness:
  "py_lower ''.PDF'' = ''.pdf'' \<and> py_lower ''.Pdf'' = ''.pdf''
   \<and> extract_text (fake_doc_libs (Inr ['' one '', ''two'']) (Inr []) (Inr \<lparr>paragraphs = [], tables = []\<rparr>) (Inr []))
        (BytesIOInput ''%PDF'') ''.PDF'' ()
      = extract_text (fake_doc_libs (Inr ['' one '', ''two'']) (Inr []) (Inr \<lparr>paragraphs = [], tables = []\<rparr>) (Inr []))
        (BytesIOInput ''%PDF'') ''.pdf'' ()
   \<and> extract_text (fake_doc_libs (Inr ['' one '', ''two'']) (Inr []) (Inr \<lparr>paragraphs = [], tables = []\<rparr>) (Inr []))
        (BytesIOInput ''%PDF'') ''.Pdf'' ()
      = extract_pdf_text (fake_doc_libs (Inr ['' one '', ''two'']) (Inr []) (Inr \<lparr>paragraphs = [], tables = []\<rparr>) (Inr []))
        (BytesIOInput ''%PDF'') ()
   \<and> py_lower ''.ODT'' \<notin> {''.pdf'', ''.docx'', ''.txt''}
   \<and> extract_text (fake_doc_libs (Inr ['' one '', ''two'']) (Inr []) (Inr \<lparr>paragraphs = [], tables = []\<rparr>) (Inr []))
        (BytesIOInput ''%PDF'') ''.ODT'' ()
      = (\<lparr>e_text = [], e_pages = Some 0, e_paragraphs = None, e_tables = None,
          e_lines = None, e_method = None,
          e_error = Some ''Unsupported file format: .odt''\<rparr>, ())"
proof -
  let ?libs = "fake_doc_libs (Inr ['' one '', ''two'']) (Inr []) (Inr \<lparr>paragraphs = [], tables = []\<rparr>) (Inr [])"
  have up: "py_lower ''.PDF'' = ''.pdf''" by code_simp
  have mixed: "py_lower ''.Pdf'' = ''.pdf''" by code_simp
  have same: "py_lower ''.pdf'' = ''.pdf''" by code_simp
  have odt: "py_lower ''.ODT'' = ''.odt''" by code_simp
  from extract_text_dispatch [of "''.PDF''" "''.pdf''" ?libs "BytesIOInput ''%PDF''" "()"] up same
  have 1: "extract_text ?libs (BytesIOInput ''%PDF'') ''.PDF'' ()
      = extract_text ?libs (BytesIOInput ''%PDF'') ''.pdf'' ()"
    by simp
  from extract_text_dispatch [of "''.Pdf''" "''.pdf''" ?libs "BytesIOInput ''%PDF''" "()"] mixed
  have 2: "extract_text ?libs (BytesIOInput ''%PDF'') ''.Pdf'' ()
      = extract_pdf_text ?libs (BytesIOInput ''%PDF'') ()"
    by simp
  from extract_text_dispatch [of "''.ODT''" "''.pdf''" ?libs "BytesIOInput ''%PDF''" "()"] odt
  have 3: "extract_text ?libs (BytesIOInput ''%PDF'') ''.ODT'' ()
      = (\<lparr>e_text = [], e_pages = Some 0, e_paragraphs = None, e_tables = None,
          e_lines = None, e_method = None,
          e_error = Some ''Unsupported file format: .odt''\<rparr>, ())"
    by simp
  from up mixed odt 1 2 3 show ?thesis by simp
qed

section \<open>Which extractors trim the text\<close>

lemma extract_pdf_text_trimmed:
  "py_strip (e_text (fst (extract_pdf_text libs file_input w)))
     = e_text (fst (extract_pdf_text libs file_input w))"
  by (simp add: extract_pdf_text_def py_strip_idem py_strip_Nil split: prod.splits sum.splits)

lemma try_encodings_text:
  "e_error (fst (try_encodings libs encodings file_input w)) = None \<Longrightarrow>
   \<exists>encoding \<in> set encodings. \<exists>w0 w1.
     read_text libs encoding file_input w0
       = (Inr (e_text (fst (try_encodings libs encodings file_input w))), w1)"
proof (induction encodings arbitrary: w)
  case Nil
  then show ?case by simp
next
  case (Cons encoding encodings)
  obtain r w1 where r: "read_text libs encoding file_input w = (r, w1)"
    by (cases "read_text libs encoding file_input w")
  show ?case
  proof (cases r)
    case (Inl e)
    with r Cons.prems have "e_error (fst (try_encodings libs encodings file_input w1)) = None"
      by simp
    from Cons.IH [OF this] r Inl show ?thesis by auto
  next
    case (Inr decoded)
    with r show ?thesis by auto
  qed
qed

lemma try_encodings_error:
  "e_error (fst (try_encodings libs encodings file_input w)) \<noteq> None \<Longrightarrow>
   e_text (fst (try_encodings libs encodings file_input w)) = []"
  by (induction encodings arbitrary: w) (auto split: prod.splits sum.splits)

text \<open>
  C6 (as amended). The text of the result is trimmed of leading and trailing
  whitespace in the PDF branch (both methods) and in the first method of the DOCX
  branch. The second method of the DOCX branch returns the text of \<open>docx2python\<close> as it
  is, and the plain-text branch returns the decoded text as it is, in UTF-8 and in
  every fallback encoding: neither is trimmed. A result with an error has the empty
  text.
\<close>

theorem extract_text_trimming:
  "(py_lower ext = ''.pdf'' \<longrightarrow>
      py_strip (e_text (fst (extract_text libs file_input ext w)))
        = e_text (fst (extract_text libs file_input ext w)))
   \<and> (py_lower ext = ''.docx'' \<longrightarrow>
        (\<forall>doc w1. docx_open libs file_input w = (Inr doc, w1) \<longrightarrow>
           e_text (fst (extract_text libs file_input ext w)) = py_strip (docx_full_text doc))
        \<and> (\<forall>e w1 result_text w2. docx_open libs file_input w = (Inl e, w1)
             \<and> docx2python_text libs file_input w1 = (Inr result_text, w2) \<longrightarrow>
           e_text (fst (extract_text libs file_input ext w)) = result_text))
   \<and> (py_lower ext = ''.txt'' \<longrightarrow>
        (\<forall>decoded w1. read_text libs ''utf-8'' file_input w = (Inr decoded, w1) \<longrightarrow>
           e_text (fst (extract_text libs file_input ext w)) = decoded)
        \<and> (\<forall>e w1. read_text libs ''utf-8'' file_input w = (Inl e, w1)
             \<and> e_error (fst (extract_text libs file_input ext w)) = None \<longrightarrow>
           (\<exists>encoding \<in> set [''utf-8'', ''latin-1'', ''cp1252'', ''iso-8859-1'']. \<exists>w0 w2.
              read_text libs encoding file_input w0
                = (Inr (e_text (fst (extract_text libs file_input ext w))), w2))))
   \<and> (e_error (fst (extract_text libs file_input ext w)) \<noteq> None \<longrightarrow>
        e_text (fst (extract_text libs file_input ext w)) = [])"
proof (intro conjI impI allI)
  assume "py_lower ext = ''.pdf''"
  then have "extract_text libs file_input ext w = extract_pdf_text libs file_input w"
    by (simp add: extract_text_def extract_text_body_def Let_def split: prod.splits)
  then show "py_strip (e_text (fst (extract_text libs file_input ext w)))
        = e_text (fst (extract_text libs file_input ext w))"
    by (simp add: extract_pdf_text_trimmed)
next
  fix doc w1
  assume "py_lower ext = ''.docx''" and "docx_open libs file_input w = (Inr doc, w1)"
  then show "e_text (fst (extract_text libs file_input ext w)) = py_strip (docx_full_text doc)"
    by (simp add: extract_text_def extract_text_body_def extract_docx_text_def Let_def)
next
  fix e w1 result_text w2
  assume "py_lower ext = ''.docx''"
    and "docx_open libs file_input w = (Inl e, w1)
           \<and> docx2python_text libs file_input w1 = (Inr result_text, w2)"
  then show "e_text (fst (extract_text libs file_input ext w)) = result_text"
    by (simp add: extract_text_def extract_text_body_def extract_docx_text_def Let_def)
next
  fix decoded w1
  assume "py_lower ext = ''.txt''" and "read_text libs ''utf-8'' file_input w = (Inr decoded, w1)"
  then show "e_text (fst (extract_text libs file_input ext w)) = decoded"
    by (simp add: extract_text_def extract_text_body_def extract_txt_text_def Let_def)
next
  fix e w1
  assume plain: "py_lower ext = ''.txt''"
    and a: "read_text libs ''utf-8'' file_input w = (Inl e, w1)
           \<and> e_error (fst (extract_text libs file_input ext w)) = None"
  let ?encodings = "[''utf-8'', ''latin-1'', ''cp1252'', ''iso-8859-1'']"
  from plain have x: "extract_text libs file_input ext w = extract_txt_text libs file_input w"
    by (simp add: extract_text_def extract_text_body_def Let_def split: prod.splits)
  from a have u: "exn_class_of e = UnicodeDecodeError"
    unfolding x by (auto simp: extract_txt_text_def split: if_splits)
  with a have t: "extract_txt_text libs file_input w = try_encodings libs ?encodings file_input w1"
    by (simp add: extract_txt_text_def del: try_encodings.simps)
  from a have "e_error (fst (try_encodings libs ?encodings file_input w1)) = None"
    unfolding x t by simp
  from try_encodings_text [OF this]
  show "\<exists>encoding \<in> set ?encodings. \<exists>w0 w2.
      read_text libs encoding file_input w0
        = (Inr (e_text (fst (extract_text libs file_input ext w))), w2)"
    unfolding x t .
next
  assume err: "e_error (fst (extract_text libs file_input ext w)) \<noteq> None"
  let ?encodings = "[''utf-8'', ''latin-1'', ''cp1252'', ''iso-8859-1'']"
  have pdf: "e_error (fst (extract_pdf_text libs file_input w)) \<noteq> None
      \<Longrightarrow> e_text (fst (extract_pdf_text libs file_input w)) = []"
    by (auto simp: extract_pdf_text_def split: prod.splits sum.splits)
  have docx: "e_error (fst (extract_docx_text libs file_input w)) \<noteq> None
      \<Longrightarrow> e_text (fst (extract_docx_text libs file_input w)) = []"
    by (auto simp: extract_docx_text_def split: prod.splits sum.splits)
  have plain: "e_error (fst (extract_txt_text libs file_input w)) \<noteq> None
      \<Longrightarrow> e_text (fst (extract_txt_text libs file_input w)) = []"
    using try_encodings_error [of libs ?encodings file_input]
    by (auto simp: extract_txt_text_def simp del: try_encodings.simps
        split: prod.splits sum.splits if_splits)
  from err pdf docx plain show "e_text (fst (extract_text libs file_input ext w)) = []"
    by (auto simp: extract_text_def extract_text_body_def Let_def split: prod.splits if_splits)
qed

theorem extract_text_trimming_witness:
  "py_lower ''.pdf'' = ''.pdf''
   \<and> e_text (fst (extract_text
         (fake_doc_libs (Inr ['' one '', ''two'']) (Inr []) (Inl (Raised OtherException ''bad zip''))
            (Inr (''body'' @ [LF])))
         (BytesIOInput '' a '') ''.pdf'' ())) = ''one '' @ [LF, LF] @ ''two''
   \<and> py_strip (''one '' @ [LF, LF] @ ''two'') = ''one '' @ [LF, LF] @ ''two''
   \<and> py_lower ''.docx'' = ''.docx''
   \<and> e_text (fst (extract_text
         (fake_doc_libs (Inr ['' one '', ''two'']) (Inr []) (Inl (Raised OtherException ''bad zip''))
            (Inr (''body'' @ [LF])))
         (BytesIOInput '' a '') ''.docx'' ())) = ''body'' @ [LF]
   \<and> py_lower ''.txt'' = ''.txt''
   \<and> e_text (fst (extract_text
         (fake_doc_libs (Inr ['' one '', ''two'']) (Inr []) (Inl (Raised OtherException ''bad zip''))
            (Inr (''body'' @ [LF])))
         (BytesIOInput '' a '') ''.txt'' ())) = '' a ''"
proof -
  let ?libs = "fake_doc_libs (Inr ['' one '', ''two'']) (Inr []) (Inl (Raised OtherException ''bad zip''))
            (Inr (''body'' @ [LF]))"
  have pdf: "py_lower ''.pdf'' = ''.pdf''" by code_simp
  have docx: "py_lower ''.docx'' = ''.docx''" by code_simp
  have plain: "py_lower ''.txt'' = ''.txt''" by code_simp
  have p: "e_text (fst (extract_text ?libs (BytesIOInput '' a '') ''.pdf'' ()))
      = ''one '' @ [LF, LF] @ ''two''"
    by code_simp
  have d1: "docx_open ?libs (BytesIOInput '' a '') () = (Inl (Raised OtherException ''bad zip''), ())"
    by (simp add: fake_doc_libs_def)
  have d2: "docx2python_text ?libs (BytesIOInput '' a '') () = (Inr (''body'' @ [LF]), ())"
    by (simp add: fake_doc_libs_def)
  have t1: "read_text ?libs ''utf-8'' (BytesIOInput '' a '') () = (Inr '' a '', ())"
    by (simp add: fake_doc_libs_def ascii_decode_def)
  note trim = extract_text_trimming [of _ ?libs "BytesIOInput '' a ''" "()"]
  from trim [of "''.pdf''"] pdf p
  have 1: "py_strip (''one '' @ [LF, LF] @ ''two'') = ''one '' @ [LF, LF] @ ''two''"
    by simp
  from trim [of "''.docx''"] docx d1 d2
  have 2: "e_text (fst (extract_text ?libs (BytesIOInput '' a '') ''.docx'' ())) = ''body'' @ [LF]"
    by blast
  from trim [of "''.txt''"] plain t1
  have 3: "e_text (fst (extract_text ?libs (BytesIOInput '' a '') ''.txt'' ())) = '' a ''"
    by blast
  from pdf docx plain p 1 2 3 show ?thesis by simp
qed

text \<open>
  C6 as stated fails in the plain-text branch and in the second method of the DOCX
  branch: the bytes \<open>" a "\<close> of a text file come back as \<open>" a "\<close>, and the text
  \<open>"body\n"\<close> of \<open>docx2python\<close> comes back with its line feed.
\<close>

theorem extract_text_untrimmed_counterexample:
  "\<not> (py_strip (e_text (fst (extract_text
         (fake_doc_libs (Inr []) (Inr []) (Inl (Raised OtherException ''bad zip''))
            (Inr (''body'' @ [LF])))
         (BytesIOInput '' a '') ''.txt'' ())))
       = e_text (fst (extract_text
         (fake_doc_libs (Inr []) (Inr []) (Inl (Raised OtherException ''bad zip''))
            (Inr (''body'' @ [LF])))
         (BytesIOInput '' a '') ''.txt'' ())))
   \<and> \<not> (py_strip (e_text (fst (extract_text
         (fake_doc_libs (Inr []) (Inr []) (Inl (Raised OtherException ''bad zip''))
            (Inr (''body'' @ [LF])))
         (BytesIOInput '' a '') ''.docx'' ())))
       = e_text (fst (extract_text
         (fake_doc_libs (Inr []) (Inr []) (Inl (Raised OtherException ''bad zip''))
            (Inr (''body'' @ [LF])))
         (BytesIOInput '' a '') ''.docx'' ())))"
  by code_simp

section \<open>The PDF renderer and its fallback\<close>

lemma run_steps_last_raises:
  "(\<And>pdf. isl (step pdf)) \<Longrightarrow> isl (run_steps (steps @ [step]) pdf)"
proof (induction steps arbitrary: pdf)
  case Nil
  from Nil [of pdf] show ?case by (cases "step pdf") auto
next
  case (Cons s steps)
  then show ?case by (cases "s pdf") auto
qed

text \<open>
  The handler draws the message of the exception it has caught, under no handler of
  its own. So with any library: when the rendering of the document raises \<open>e\<close> and the
  library cannot draw the line that quotes the message of \<open>e\<close>, \<open>create_translated_pdf\<close>
  raises.
\<close>

lemma create_translated_pdf_propagates:
  assumes main: "render_translated_pdf lib now original_filename translated_text source_lang
      target_lang = Inl e"
    and line: "\<And>pdf. isl (fpdf_cell lib 0 10
      (ustr ''Error creating translated PDF: '' @ message_of e) [] pdf)"
  shows "isl (create_translated_pdf lib now original_filename translated_text source_lang target_lang)"
proof -
  let ?line = "fpdf_cell lib 0 10 (ustr ''Error creating translated PDF: '' @ message_of e) []"
  let ?before = "[fpdf_add_page lib, fpdf_set_font lib ''Arial'' ''B'' 16,
     fpdf_cell lib 0 10 (ustr ''Translation Error'') ''C'', fpdf_set_font lib ''Arial'' [] 12]"
  have steps: "isl (run_steps (?before @ [?line]) pdf)" for pdf
    using line by (rule run_steps_last_raises)
  have "isl (render_error_pdf lib e)"
  proof (cases "fpdf_new lib")
    case (Inl e0)
    then show ?thesis by (simp add: render_error_pdf_def)
  next
    case (Inr error_pdf)
    from steps [of error_pdf] obtain e1 where "run_steps (?before @ [?line]) error_pdf = Inl e1"
      by (auto simp: isl_def)
    with Inr show ?thesis by (simp add: render_error_pdf_def)
  qed
  with main show ?thesis by (simp add: create_translated_pdf_def)
qed

text \<open>A translation in Latin-1 is drawn: the text \<open>e\<close> with an acute accent gives a PDF.\<close>

lemma create_translated_pdf_latin1:
  "create_translated_pdf latin1_fpdf (ustr ''2026-11-03 10:00:00'') (ustr ''a.txt'') [233]
       (ustr ''en'') (ustr ''fr'')
     = Inr (''%PDF-1.3<page>(Translation: a.txt)(Translated from en to fr)''
            @ ''(Generated on: 2026-11-03 10:00:00)('' @ [CHR 0xE9] @ '')'')"
  by (simp add: create_translated_pdf_def render_translated_pdf_def render_error_pdf_def
      latin1_fpdf_def outside_font_def ustr_def ustrip_def is_uspace_def py_split_on_def
      py_lower_def lower_char_def char_of_eq_iff)

text \<open>
  C7 (the code at the failing input). The translated text is the Hindi word of the
  code points 2344, 2350, 2360, 2381, 2340, 2375, and the library is the one with the
  built-in Latin-1 fonts. The cell of the body raises on the first character. The
  handler then draws \<open>Error creating translated PDF: \<close> and the message of that
  exception, which quotes the same character, at index 42 of the line: this cell raises
  too, nothing catches it, and \<open>create_translated_pdf\<close> raises instead of returning an
  error PDF.
\<close>

theorem create_translated_pdf_raises_on_hindi:
  "render_translated_pdf latin1_fpdf (ustr ''2026-11-03 10:00:00'') (ustr ''a.txt'')
       [2344, 2350, 2360, 2381, 2340, 2375] (ustr ''en'') (ustr ''hi'')
     = Inl (outside_font 0 2344 ''helvetica'')
   \<and> render_error_pdf latin1_fpdf (outside_font 0 2344 ''helvetica'')
     = Inl (outside_font 42 2344 ''helvetica'')
   \<and> create_translated_pdf latin1_fpdf (ustr ''2026-11-03 10:00:00'') (ustr ''a.txt'')
       [2344, 2350, 2360, 2381, 2340, 2375] (ustr ''en'') (ustr ''hi'')
     = Inl (outside_font 42 2344 ''helvetica'')"
  by (simp add: create_translated_pdf_def render_translated_pdf_def render_error_pdf_def
      latin1_fpdf_def outside_font_def ustr_def ustrip_def is_uspace_def py_split_on_def
      py_lower_def lower_char_def char_of_eq_iff)


end
